theory Spec2Isabelle
  imports Complex_Main
begin

section \<open>Python values and the random source\<close>

text \<open>
  Python's unbounded integers are \<open>int\<close>. Python's floats are modelled as exact reals:
  every float expression of the source (\<open>strength * 0.5\<close>, \<open>level * 1.5\<close>, ...) is read
  as the real-number expression it denotes, so rounding of IEEE doubles is not part of
  the model. Strings are \<open>string\<close>.
\<close>

datatype error = ValueError string | IndexError | ZeroDivisionError

definition py_int :: "real \<Rightarrow> int" where
  \<comment> \<open>\<open>int(x)\<close> on a float: truncation towards zero.\<close>
  "py_int x = (if 0 \<le> x then \<lfloor>x\<rfloor> else \<lceil>x\<rceil>)"

definition digit_char :: "nat \<Rightarrow> char" where
  "digit_char d = ''0123456789'' ! d"

fun str_nat :: "nat \<Rightarrow> string" where
  "str_nat n = (if n < 10 then [digit_char n] else str_nat (n div 10) @ [digit_char (n mod 10)])"

declare str_nat.simps [simp del]

definition str_int :: "int \<Rightarrow> string" where
  \<comment> \<open>\<open>str(n)\<close>, as used by the f-strings that build identifiers.\<close>
  "str_int n = (if n < 0 then CHR ''-'' # str_nat (nat (- n)) else str_nat (nat n))"

text \<open>
  The module \<open>random\<close> is a process-wide generator. It is modelled as an explicit stream
  of raw draws that every call consumes from and hands on: \<open>g 0\<close> is the next draw.
  \<open>random.random()\<close> yields a multiple of \<open>2^-53\<close> in \<open>[0, 1)\<close>, \<open>random.randint(a, b)\<close>
  an integer in \<open>[a, b]\<close>, \<open>random.choice(xs)\<close> an element of \<open>xs\<close>. Any run of the
  real generator is the run of the model on some stream, so a statement for all streams
  covers all seeds. Distributions are not part of the model.
\<close>

type_synonym rng = "nat \<Rightarrow> nat"

definition rng_tail :: "rng \<Rightarrow> rng" where
  "rng_tail g = (\<lambda>n. g (Suc n))"

definition random_random :: "rng \<Rightarrow> real \<times> rng" where
  "random_random g = (real (g 0 mod 2 ^ 53) / 2 ^ 53, rng_tail g)"

definition randint :: "int \<Rightarrow> int \<Rightarrow> rng \<Rightarrow> int \<times> rng" where
  "randint a b g = (a + int (g 0 mod nat (b - a + 1)), rng_tail g)"

definition choice :: "'a list \<Rightarrow> rng \<Rightarrow> 'a \<times> rng" where
  \<comment> \<open>\<open>random.choice\<close> on a non-empty sequence; the index is below the length.\<close>
  "choice xs g = (xs ! (g 0 mod length xs), rng_tail g)"

definition py_choice :: "'a list \<Rightarrow> rng \<Rightarrow> error + ('a \<times> rng)" where
  \<comment> \<open>\<open>random.choice\<close> on any sequence: the empty one raises IndexError.\<close>
  "py_choice xs g = (if xs = [] then Inl IndexError else Inr (choice xs g))"

definition const_rng :: "nat \<Rightarrow> rng" where
  \<comment> \<open>The stream that repeats one raw draw; used for concrete runs.\<close>
  "const_rng k = (\<lambda>_. k)"

section \<open>Game data (looter\_shooter\_game.py)\<close>

datatype DamageType = PHYSICAL | FIRE | ICE | LIGHTNING | POISON | ARCANE

datatype ItemRarity = COMMON | UNCOMMON | RARE | EPIC | LEGENDARY

datatype ItemType = WEAPON | ARMOR | POTION | SCROLL

datatype StatusEffectType = BURN | FREEZE | POISONED | STUN | SLOW | HEAL | SHIELD

record Stats =
  strength :: int
  dexterity :: int
  intelligence :: int
  vitality :: int

record StatusEffect =
  se_id :: string
  se_type :: StatusEffectType
  se_duration :: int
  se_value :: real

record LootItem =
  item_id :: string
  item_name :: string
  item_type :: ItemType
  item_rarity :: ItemRarity
  item_stats :: "(string \<times> int) list"
  item_value :: int
  item_effect :: "string option"

record DamageResult =
  damage :: int
  damage_type :: DamageType
  is_critical :: bool
  status_effect :: "StatusEffect option"

record Player =
  p_id :: string
  p_name :: string
  p_level :: int
  p_health :: int
  p_max_health :: int
  p_mana :: int
  p_max_mana :: int
  p_stats :: Stats
  p_gold :: int
  p_experience :: int
  p_status_effects :: "StatusEffect list"
  p_inventory :: "LootItem list"

record Enemy =
  e_id :: string
  e_type :: string
  e_level :: int
  e_health :: int
  e_max_health :: int
  e_damage :: int
  e_stats :: Stats
  e_experience :: int
  e_gold_reward :: int

section \<open>CombatSystem\<close>

definition roll_status :: "DamageType \<Rightarrow> string \<Rightarrow> real \<Rightarrow> rng \<Rightarrow> StatusEffect option \<times> rng" where
  \<comment> \<open>The if/elif chain on the damage type; \<open>and\<close> short-circuits, so the chance is rolled
      only in the branch whose type matches.\<close>
  "roll_status dt sid total_damage g =
     (if dt = FIRE then
        (let (r, g1) = random_random g in
         (if r < 0.3
          then Some \<lparr>se_id = sid, se_type = BURN, se_duration = 5000, se_value = total_damage * 0.1\<rparr>
          else None, g1))
      else if dt = ICE then
        (let (r, g1) = random_random g in
         (if r < 0.4
          then Some \<lparr>se_id = sid, se_type = SLOW, se_duration = 4000, se_value = 0.5\<rparr>
          else None, g1))
      else if dt = LIGHTNING then
        (let (r, g1) = random_random g in
         (if r < 0.2
          then Some \<lparr>se_id = sid, se_type = STUN, se_duration = 2000, se_value = 0\<rparr>
          else None, g1))
      else if dt = POISON then
        (let (r, g1) = random_random g in
         (if r < 0.5
          then Some \<lparr>se_id = sid, se_type = POISONED, se_duration = 10000, se_value = total_damage * 0.05\<rparr>
          else None, g1))
      else (None, g))"

definition calculate_damage ::
  "int \<Rightarrow> DamageType \<Rightarrow> Stats \<Rightarrow> Stats \<Rightarrow> real \<Rightarrow> rng \<Rightarrow> DamageResult \<times> rng" where
  "calculate_damage base_damage dt attacker_stats defender_stats crit_chance g =
     (let total0 = real_of_int base_damage;
          total1 = (if dt = PHYSICAL then total0 + real_of_int (strength attacker_stats) * 0.5
                    else if dt \<in> set [FIRE, ICE, LIGHTNING, ARCANE]
                    then total0 + real_of_int (intelligence attacker_stats) * 0.7
                    else total0);
          resistance = real_of_int (vitality defender_stats) * 0.3;
          total2 = max 1 (total1 - resistance);
          (roll, g1) = random_random g;
          crit = (roll < crit_chance);
          total_damage = (if crit then total2 * 2 else total2);
          (status_effect_id_counter, g2) = randint 1000 9999 g1;
          (se, g3) = roll_status dt (''status_'' @ str_int status_effect_id_counter) total_damage g2
      in (\<lparr>damage = py_int total_damage, damage_type = dt, is_critical = crit,
           status_effect = se\<rparr>, g3))"

text \<open>
  \<open>simulate_combat\<close> receives references to a player and an enemy object. The state of
  a run holds these two objects (what the caller can observe afterwards) next to the
  local variables of the function and the random stream.
\<close>

record RoundInfo =
  ri_round :: int
  ri_playerAttack :: DamageResult
  ri_enemyHealth :: int
  ri_enemyAttack :: "DamageResult option"
  ri_playerHealth :: "int option"

record CombatState =
  cs_player :: Player
  cs_enemy :: Enemy
  player_health :: int
  enemy_health :: int
  round_num :: int
  rounds :: "RoundInfo list"
  cs_rng :: rng

record CombatResult =
  victory :: bool
  cr_rounds :: int
  finalPlayerHealth :: int
  finalEnemyHealth :: int
  combatLog :: "RoundInfo list"

definition combat_round :: "CombatState \<Rightarrow> CombatState" where
  \<comment> \<open>One pass through the body of the while loop.\<close>
  "combat_round s =
     (let player = cs_player s; enemy = cs_enemy s;
          rn = round_num s + 1;
          (player_damage, g1) =
             calculate_damage (20 + p_level player * 5) PHYSICAL (p_stats player) (e_stats enemy)
               0.1 (cs_rng s);
          eh = enemy_health s - damage player_damage;
          round_info = \<lparr>ri_round = rn, ri_playerAttack = player_damage,
                        ri_enemyHealth = max 0 eh, ri_enemyAttack = None,
                        ri_playerHealth = None\<rparr>
      in if eh > 0 then
           (let (enemy_damage, g2) =
                  calculate_damage (e_damage enemy) PHYSICAL (e_stats enemy) (p_stats player)
                    0.1 g1;
                ph = player_health s - damage enemy_damage
            in s\<lparr>player_health := ph, enemy_health := eh, round_num := rn,
                 rounds := rounds s @ [round_info\<lparr>ri_enemyAttack := Some enemy_damage,
                                                  ri_playerHealth := Some (max 0 ph)\<rparr>],
                 cs_rng := g2\<rparr>)
         else s\<lparr>enemy_health := eh, round_num := rn, rounds := rounds s @ [round_info],
                cs_rng := g1\<rparr>)"

function combat_loop :: "CombatState \<Rightarrow> CombatState" where
  "combat_loop s =
     (if player_health s > 0 \<and> enemy_health s > 0 \<and> round_num s < 100
      then combat_loop (combat_round s) else s)"
  by pat_completeness auto
termination
  by (relation "measure (\<lambda>s. nat (100 - round_num s))")
    (auto simp: combat_round_def Let_def split: prod.splits)

declare combat_loop.simps [simp del]

definition run_combat :: "Player \<Rightarrow> Enemy \<Rightarrow> rng \<Rightarrow> CombatState" where
  \<comment> \<open>The state of \<open>simulate_combat\<close> when its loop exits.\<close>
  "run_combat player enemy g =
     combat_loop \<lparr>cs_player = player, cs_enemy = enemy, player_health = p_health player,
                  enemy_health = e_health enemy, round_num = 0, rounds = [], cs_rng = g\<rparr>"

definition simulate_combat :: "Player \<Rightarrow> Enemy \<Rightarrow> rng \<Rightarrow> CombatResult \<times> Player \<times> Enemy \<times> rng" where
  \<comment> \<open>The returned dictionary, then the two argument objects as the call leaves them,
      then the random stream.\<close>
  "simulate_combat player enemy g =
     (let s = run_combat player enemy g
      in (\<lparr>victory = (player_health s > 0), cr_rounds = round_num s,
            finalPlayerHealth = max 0 (player_health s),
            finalEnemyHealth = max 0 (enemy_health s),
            combatLog = rounds s\<rparr>,
          cs_player s, cs_enemy s, cs_rng s))"

section \<open>LootSystem\<close>

definition ITEM_PREFIXES :: "ItemType \<Rightarrow> string list" where
  "ITEM_PREFIXES t = (case t of
     WEAPON \<Rightarrow> [''Sharp'', ''Keen'', ''Brutal'', ''Swift'', ''Deadly'', ''Ancient'', ''Cursed'',
                ''Blessed'', ''Vengeful'', ''Divine'']
   | ARMOR \<Rightarrow> [''Sturdy'', ''Light'', ''Heavy'', ''Reinforced'', ''Magical'', ''Dragon'', ''Shadow'',
               ''Holy'', ''Ethereal'', ''Titan'']
   | POTION \<Rightarrow> [''Minor'', ''Lesser'', ''Greater'', ''Major'', ''Superior'', ''Divine'']
   | SCROLL \<Rightarrow> [''Scroll of'', ''Tome of'', ''Grimoire of'', ''Codex of''])"

definition ITEM_TYPES_NAMES :: "ItemType \<Rightarrow> string list" where
  "ITEM_TYPES_NAMES t = (case t of
     WEAPON \<Rightarrow> [''Sword'', ''Axe'', ''Bow'', ''Staff'', ''Dagger'', ''Mace'', ''Spear'', ''Hammer'',
                ''Wand'']
   | ARMOR \<Rightarrow> [''Helmet'', ''Chestplate'', ''Boots'', ''Gauntlets'', ''Shield'', ''Cloak'', ''Belt'',
               ''Ring'']
   | POTION \<Rightarrow> [''Health Potion'', ''Mana Potion'', ''Strength Elixir'', ''Defense Tonic'',
                ''Speed Draught'']
   | SCROLL \<Rightarrow> [''Fireball'', ''Lightning'', ''Ice Storm'', ''Healing'', ''Teleportation'',
                ''Summoning''])"

record RarityValue =
  multiplier :: real
  sell_value :: int

definition RARITY_VALUES :: "ItemRarity \<Rightarrow> RarityValue" where
  "RARITY_VALUES r = (case r of
     COMMON \<Rightarrow> \<lparr>multiplier = 1.0, sell_value = 10\<rparr>
   | UNCOMMON \<Rightarrow> \<lparr>multiplier = 1.5, sell_value = 25\<rparr>
   | RARE \<Rightarrow> \<lparr>multiplier = 2.0, sell_value = 50\<rparr>
   | EPIC \<Rightarrow> \<lparr>multiplier = 3.0, sell_value = 100\<rparr>
   | LEGENDARY \<Rightarrow> \<lparr>multiplier = 5.0, sell_value = 250\<rparr>)"

definition random_item_type :: "rng \<Rightarrow> ItemType \<times> rng" where
  "random_item_type g =
     (let (r, g1) = random_random g; roll = r * 100
      in (if roll < 35 then WEAPON else if roll < 70 then ARMOR
          else if roll < 90 then POTION else SCROLL, g1))"

definition generate_item_name :: "ItemType \<Rightarrow> ItemRarity \<Rightarrow> rng \<Rightarrow> string \<times> rng" where
  \<comment> \<open>All three branches of the source build the same string.\<close>
  "generate_item_name t rarity g =
     (let (prefix, g1) = choice (ITEM_PREFIXES t) g;
          (base_name, g2) = choice (ITEM_TYPES_NAMES t) g1
      in (if t = SCROLL then prefix @ '' '' @ base_name
          else if t = POTION then prefix @ '' '' @ base_name
          else prefix @ '' '' @ base_name, g2))"

definition generate_stats :: "ItemType \<Rightarrow> ItemRarity \<Rightarrow> int \<Rightarrow> rng \<Rightarrow> (string \<times> int) list \<times> rng" where
  \<comment> \<open>The dictionary of stats, as the list of its entries in insertion order.\<close>
  "generate_stats t rarity player_level g =
     (let m = multiplier (RARITY_VALUES rarity)
      in if t = WEAPON then
           (let stats = [(''damage'', py_int (real_of_int (10 + player_level * 2) * m))];
                (r, g1) = random_random g
            in (if r < 0.5 then stats @ [(''critChance'', py_int (5 * m))] else stats, g1))
         else if t = ARMOR then
           (let stats = [(''defense'', py_int ((8 + real_of_int player_level * 1.5) * m))];
                (r, g1) = random_random g
            in (if r < 0.5 then stats @ [(''health'', py_int (20 * m))] else stats, g1))
         else ([], g))"

definition calculate_value :: "ItemType \<Rightarrow> ItemRarity \<Rightarrow> (string \<times> int) list \<Rightarrow> int" where
  "calculate_value t rarity stats =
     (let base_value = sell_value (RARITY_VALUES rarity);
          stat_value = sum_list (map snd stats) * 2
      in base_value + stat_value)"

fun starts_with :: "string \<Rightarrow> string \<Rightarrow> bool" where
  "starts_with [] s = True"
| "starts_with (c # cs) [] = False"
| "starts_with (c # cs) (d # ds) = (c = d \<and> starts_with cs ds)"

fun str_in :: "string \<Rightarrow> string \<Rightarrow> bool" where
  \<comment> \<open>\<open>sub in s\<close> on strings.\<close>
  "str_in sub [] = (sub = [])"
| "str_in sub (d # ds) = (starts_with sub (d # ds) \<or> str_in sub ds)"

definition is_space :: "char \<Rightarrow> bool" where
  \<comment> \<open>The ASCII characters that \<open>str.split()\<close> treats as blanks.\<close>
  "is_space c = (c \<in> set [CHR '' '', CHR 0x09, CHR 0x0A, CHR 0x0B, CHR 0x0C, CHR 0x0D,
                            CHR 0x1C, CHR 0x1D, CHR 0x1E, CHR 0x1F])"

definition last_word :: "string \<Rightarrow> error + string" where
  \<comment> \<open>\<open>s.split()[-1]\<close>: the last run of non-blank characters; IndexError when there is none.\<close>
  "last_word s =
     (let w = rev (takeWhile (\<lambda>c. \<not> is_space c) (dropWhile is_space (rev s)))
      in if w = [] then Inl IndexError else Inr w)"

definition generate_effect :: "ItemType \<Rightarrow> string \<Rightarrow> error + string" where
  "generate_effect t name =
     (if t = POTION then
        Inr (if str_in ''Health'' name then ''Restores health over time''
             else if str_in ''Mana'' name then ''Restores mana over time''
             else if str_in ''Strength'' name then ''Temporarily increases strength''
             else if str_in ''Defense'' name then ''Temporarily increases defense''
             else ''Increases movement speed'')
      else (case last_word name of
              Inl e \<Rightarrow> Inl e
            | Inr w \<Rightarrow> Inr (''Casts '' @ w @ '' spell'')))"

definition generate_item ::
  "ItemRarity \<Rightarrow> ItemType option \<Rightarrow> int \<Rightarrow> rng \<Rightarrow> error + (LootItem \<times> rng)" where
  "generate_item rarity item_type_opt player_level g =
     (let (t, g1) = (case item_type_opt of None \<Rightarrow> random_item_type g | Some t \<Rightarrow> (t, g));
          (name, g2) = generate_item_name t rarity g1;
          (stats, g3) = generate_stats t rarity player_level g2;
          val = calculate_value t rarity stats;
          (n, g4) = randint 1000 9999 g3;
          item = \<lparr>item_id = ''item_'' @ str_int n, item_name = name, item_type = t,
                  item_rarity = rarity, item_stats = stats, item_value = val,
                  item_effect = None\<rparr>
      in if t \<in> set [POTION, SCROLL] then
           (case generate_effect t name of
              Inl e \<Rightarrow> Inl e
            | Inr eff \<Rightarrow> Inr (item\<lparr>item_effect := Some eff\<rparr>, g4))
         else Inr (item, g4))"

section \<open>EnemyFactory and GameSimulator\<close>

record EnemyTemplate =
  t_health :: int
  t_damage :: int
  t_experience :: int
  t_gold :: int

definition zombie_template :: EnemyTemplate where
  "zombie_template = \<lparr>t_health = 50, t_damage = 10, t_experience = 20, t_gold = 5\<rparr>"

definition ENEMY_TYPES :: "(string \<times> EnemyTemplate) list" where
  "ENEMY_TYPES =
     [(''zombie'', zombie_template),
      (''skeleton'', \<lparr>t_health = 40, t_damage = 15, t_experience = 25, t_gold = 8\<rparr>),
      (''orc'', \<lparr>t_health = 80, t_damage = 20, t_experience = 35, t_gold = 12\<rparr>),
      (''demon'', \<lparr>t_health = 200, t_damage = 40, t_experience = 100, t_gold = 50\<rparr>)]"

definition create_enemy :: "string \<Rightarrow> int \<Rightarrow> rng \<Rightarrow> Enemy \<times> rng" where
  \<comment> \<open>A type that is not a key of the table is replaced by \<open>'zombie'\<close>, whose entry is
      then looked up; the test and the lookup are one \<open>case\<close> here.\<close>
  "create_enemy enemy_type level g =
     (let (enemy_type, template) =
            (case map_of ENEMY_TYPES enemy_type of
               None \<Rightarrow> (''zombie'', zombie_template)
             | Some t \<Rightarrow> (enemy_type, t));
          level_multiplier = 1 + real_of_int (level - 1) * 0.3;
          health = py_int (real_of_int (t_health template) * level_multiplier);
          dmg = py_int (real_of_int (t_damage template) * level_multiplier);
          experience = py_int (real_of_int (t_experience template) * level_multiplier);
          gold = py_int (real_of_int (t_gold template) * level_multiplier);
          stats = \<lparr>strength = 8 + level * 2, dexterity = 6 + level,
                   intelligence = 5 + level, vitality = 10 + level * 2\<rparr>;
          (n, g1) = randint 1000 9999 g
      in (\<lparr>e_id = ''enemy_'' @ str_int n, e_type = enemy_type, e_level = level,
            e_health = health, e_max_health = health, e_damage = dmg, e_stats = stats,
            e_experience = experience, e_gold_reward = gold\<rparr>, g1))"

definition create_player :: "string \<Rightarrow> int \<Rightarrow> Player" where
  "create_player name level =
     (let base_health = 100; base_mana = 50;
          health = base_health + (level - 1) * 20;
          mana = base_mana + (level - 1) * 10;
          stats = \<lparr>strength = 10 + (level - 1) * 2, dexterity = 10 + (level - 1) * 2,
                   intelligence = 10 + (level - 1) * 2, vitality = 10 + (level - 1) * 2\<rparr>
      in \<lparr>p_id = ''player_1'', p_name = name, p_level = level, p_health = health,
           p_max_health = health, p_mana = mana, p_max_mana = mana, p_stats = stats,
           p_gold = 100 * level, p_experience = 0, p_status_effects = [],
           p_inventory = []\<rparr>)"








section \<open>The integration module (looter\_shooter\_integration.py)\<close>

definition upper_char :: "char \<Rightarrow> char" where
  "upper_char c =
     (case map_of (zip ''abcdefghijklmnopqrstuvwxyz'' ''ABCDEFGHIJKLMNOPQRSTUVWXYZ'') c of
        Some u \<Rightarrow> u
      | None \<Rightarrow> c)"

definition upper :: "string \<Rightarrow> string" where
  \<comment> \<open>\<open>str.upper()\<close> on ASCII text.\<close>
  "upper s = map upper_char s"

definition ItemRarity_by_name :: "string \<Rightarrow> ItemRarity option" where
  \<comment> \<open>\<open>ItemRarity[name]\<close>: lookup of an enum member by its name; None is the KeyError.\<close>
  "ItemRarity_by_name = map_of [(''COMMON'', COMMON), (''UNCOMMON'', UNCOMMON), (''RARE'', RARE),
                                (''EPIC'', EPIC), (''LEGENDARY'', LEGENDARY)]"

definition ItemType_by_name :: "string \<Rightarrow> ItemType option" where
  "ItemType_by_name = map_of [(''WEAPON'', WEAPON), (''ARMOR'', ARMOR), (''POTION'', POTION),
                              (''SCROLL'', SCROLL)]"

fun generate_items ::
  "nat \<Rightarrow> ItemRarity \<Rightarrow> ItemType option \<Rightarrow> int \<Rightarrow> rng \<Rightarrow> error + (LootItem list \<times> rng)" where
  \<comment> \<open>The loop \<open>for _ in range(count)\<close> that collects the items.\<close>
  "generate_items 0 rarity t level g = Inr ([], g)"
| "generate_items (Suc n) rarity t level g =
     (case generate_item rarity t level g of
        Inl e \<Rightarrow> Inl e
      | Inr (item, g1) \<Rightarrow>
          (case generate_items n rarity t level g1 of
             Inl e \<Rightarrow> Inl e
           | Inr (items, g2) \<Rightarrow> Inr (item # items, g2)))"

definition generate_loot_json ::
  "int \<Rightarrow> string \<Rightarrow> string option \<Rightarrow> int \<Rightarrow> rng \<Rightarrow> error + (LootItem list \<times> rng)" where
  \<comment> \<open>The result is the list under the key \<open>items\<close>; the JSON text is not modelled. An
      empty string for the item type is falsy and counts as no item type.\<close>
  "generate_loot_json count rarity item_type_arg level g =
     (case ItemRarity_by_name (upper rarity) of
        None \<Rightarrow> Inl (ValueError (''Invalid rarity: '' @ rarity @
                  ''. Must be one of: common, uncommon, rare, epic, legendary''))
      | Some rarity_enum \<Rightarrow>
          (case (case item_type_arg of
                   None \<Rightarrow> Inr None
                 | Some s \<Rightarrow>
                     if s = [] then Inr None
                     else (case ItemType_by_name (upper s) of
                             None \<Rightarrow> Inl (ValueError (''Invalid item type: '' @ s @
                                      ''. Must be one of: weapon, armor, potion, scroll''))
                           | Some t \<Rightarrow> Inr (Some t))) of
             Inl e \<Rightarrow> Inl e
           | Inr item_type_enum \<Rightarrow> generate_items (nat count) rarity_enum item_type_enum level g))"

definition simulate_combat_json ::
  "int \<Rightarrow> int \<Rightarrow> string \<Rightarrow> rng \<Rightarrow> (Player \<times> Enemy \<times> CombatResult) \<times> rng" where
  \<comment> \<open>The three entries \<open>player\<close>, \<open>enemy\<close> and \<open>combat\<close> of the result.\<close>
  "simulate_combat_json player_level enemy_level enemy_type g =
     (let player0 = create_player ''Hero'' player_level;
          (enemy0, g1) = create_enemy enemy_type enemy_level g;
          (combat_result, player, enemy, g2) = simulate_combat player0 enemy0 g1
      in ((player, enemy, combat_result), g2))"

section \<open>The dungeon generator (looter\_shooter\_dungeon.py)\<close>

definition py_index :: "'a list \<Rightarrow> int \<Rightarrow> error + 'a" where
  \<comment> \<open>\<open>xs[i]\<close>: a negative index counts from the end, an index out of range raises.\<close>
  "py_index xs i =
     (let len = int (length xs); k = (if i < 0 then len + i else i)
      in if k < 0 \<or> len \<le> k then Inl IndexError else Inr (xs ! nat k))"

record Position =
  pos_x :: real
  pos_y :: real
  pos_z :: real

record Room =
  room_x :: real
  room_z :: real
  room_width :: real
  room_height :: real
  room_type :: string

record Corridor =
  cor_start :: Position
  cor_end :: Position
  cor_width :: real

record Trap =
  trap_id :: string
  trap_position :: Position
  trap_type :: string
  trap_damage :: int
  trap_triggered :: bool

record SpawnPoint =
  sp_position :: Position
  sp_enemy_type :: string
  sp_cooldown :: int
  sp_last_spawn :: int

record Wall =
  wall_x :: real
  wall_z :: real
  wall_width :: real
  wall_height :: real
  wall_depth :: real

record Metadata =
  num_rooms :: int
  num_traps :: int
  num_spawn_points :: int

record Dungeon =
  rooms :: "Room list"
  corridors :: "Corridor list"
  traps :: "Trap list"
  spawnPoints :: "SpawnPoint list"
  walls :: "Wall list"
  level :: int
  metadata :: Metadata

record DungeonEngine =
  trap_id_counter :: int
  spawn_point_id_counter :: int

definition determine_room_type :: "int \<Rightarrow> int \<Rightarrow> rng \<Rightarrow> string \<times> rng" where
  "determine_room_type index total_rooms g =
     (if index = total_rooms - 1 then (''boss'', g)
      else (let (r, g1) = random_random g
            in (if r < 0.2 then ''treasure'' else ''normal'', g1)))"

definition create_trap ::
  "DungeonEngine \<Rightarrow> Room \<Rightarrow> int \<Rightarrow> rng \<Rightarrow> Trap \<times> DungeonEngine \<times> rng" where
  "create_trap engine room lvl g =
     (let (tt, g1) = choice [''spike'', ''fire'', ''arrow'', ''poison''] g;
          (rx, g2) = random_random g1;
          offset_x = (rx - 0.5) * room_width room * 0.8;
          (rz, g3) = random_random g2;
          offset_z = (rz - 0.5) * room_height room * 0.8;
          engine' = engine\<lparr>trap_id_counter := trap_id_counter engine + 1\<rparr>
      in (\<lparr>trap_id = ''trap_'' @ str_int (trap_id_counter engine'),
            trap_position = \<lparr>pos_x = room_x room + offset_x, pos_y = 0,
                              pos_z = room_z room + offset_z\<rparr>,
            trap_type = tt, trap_damage = 10 + lvl * 5, trap_triggered = False\<rparr>,
          engine', g3))"

definition create_spawn_point :: "Room \<Rightarrow> int \<Rightarrow> bool \<Rightarrow> rng \<Rightarrow> SpawnPoint \<times> rng" where
  "create_spawn_point room lvl is_boss g =
     (let enemy_types = (if is_boss then [''demon''] else [''zombie'', ''skeleton'', ''orc'']);
          (enemy_type, g1) = choice enemy_types g;
          (rx, g2) = random_random g1;
          offset_x = (rx - 0.5) * room_width room * 0.7;
          (rz, g3) = random_random g2;
          offset_z = (rz - 0.5) * room_height room * 0.7
      in (\<lparr>sp_position = \<lparr>pos_x = room_x room + offset_x, pos_y = 0,
                            pos_z = room_z room + offset_z\<rparr>,
            sp_enemy_type = enemy_type,
            sp_cooldown = (if is_boss then 60000 else 30000), sp_last_spawn = 0\<rparr>, g3))"

definition generate_room_walls :: "Room \<Rightarrow> Wall list" where
  "generate_room_walls room =
     (let wall_thickness = 1.0; wall_h = 4.0
      in [\<lparr>wall_x = room_x room,
            wall_z = room_z room - room_height room / 2 - wall_thickness / 2,
            wall_width = room_width room + wall_thickness * 2, wall_height = wall_h,
            wall_depth = wall_thickness\<rparr>,
          \<lparr>wall_x = room_x room,
            wall_z = room_z room + room_height room / 2 + wall_thickness / 2,
            wall_width = room_width room + wall_thickness * 2, wall_height = wall_h,
            wall_depth = wall_thickness\<rparr>,
          \<lparr>wall_x = room_x room + room_width room / 2 + wall_thickness / 2,
            wall_z = room_z room, wall_width = wall_thickness, wall_height = wall_h,
            wall_depth = room_height room\<rparr>,
          \<lparr>wall_x = room_x room - room_width room / 2 - wall_thickness / 2,
            wall_z = room_z room, wall_width = wall_thickness, wall_height = wall_h,
            wall_depth = room_height room\<rparr>])"

text \<open>
  The iterations of \<open>generate_dungeon\<close>. Each takes the lists built so far and the random
  stream and returns them extended; a step that raises ends the iteration with the error.
\<close>

definition room_step ::
  "int \<Rightarrow> int \<Rightarrow> Room list \<times> Corridor list \<times> rng \<Rightarrow> error + (Room list \<times> Corridor list \<times> rng)" where
  \<comment> \<open>The body of \<open>for i in range(1, num_rooms)\<close>.\<close>
  "room_step n i st =
     (case st of (rs, cs, g) \<Rightarrow>
        if n = 0 then Inl ZeroDivisionError
        else
          (let angle = (real_of_int i / real_of_int n) * pi * 2;
               (r1, g1) = random_random g;
               distance = 25 + r1 * 10;
               (rt, g2) = determine_room_type i n g1;
               (rw, g3) = random_random g2;
               (rh, g4) = random_random g3;
               room = \<lparr>room_x = cos angle * distance, room_z = sin angle * distance,
                        room_width = 10.0 + rw * 8.0, room_height = 10.0 + rh * 8.0,
                        room_type = rt\<rparr>;
               rs' = rs @ [room]
           in if i > 0 then
                (case py_index rs' (i - 1) of
                   Inl e \<Rightarrow> Inl e
                 | Inr prev_room \<Rightarrow>
                     Inr (rs',
                          cs @ [\<lparr>cor_start = \<lparr>pos_x = room_x prev_room, pos_y = 0,
                                                pos_z = room_z prev_room\<rparr>,
                                  cor_end = \<lparr>pos_x = room_x room, pos_y = 0,
                                              pos_z = room_z room\<rparr>,
                                  cor_width = 3.0\<rparr>],
                          g4))
              else Inr (rs', cs, g4)))"

fun room_loop ::
  "int \<Rightarrow> int list \<Rightarrow> Room list \<times> Corridor list \<times> rng \<Rightarrow> error + (Room list \<times> Corridor list \<times> rng)" where
  "room_loop n [] st = Inr st"
| "room_loop n (i # is) st =
     (case room_step n i st of Inl e \<Rightarrow> Inl e | Inr st' \<Rightarrow> room_loop n is st')"

definition trap_step ::
  "Room list \<Rightarrow> int \<Rightarrow> Trap list \<times> DungeonEngine \<times> rng \<Rightarrow> error + (Trap list \<times> DungeonEngine \<times> rng)" where
  \<comment> \<open>The body of \<open>for i in range(num_traps)\<close>.\<close>
  "trap_step rs lvl st =
     (case st of (ts, engine, g) \<Rightarrow>
        (case py_choice rs g of
           Inl e \<Rightarrow> Inl e
         | Inr (room, g1) \<Rightarrow>
             (let (trap, engine', g2) = create_trap engine room lvl g1
              in Inr (ts @ [trap], engine', g2))))"

fun trap_loop ::
  "Room list \<Rightarrow> int \<Rightarrow> nat \<Rightarrow> Trap list \<times> DungeonEngine \<times> rng \<Rightarrow> error + (Trap list \<times> DungeonEngine \<times> rng)" where
  "trap_loop rs lvl 0 st = Inr st"
| "trap_loop rs lvl (Suc k) st =
     (case trap_step rs lvl st of Inl e \<Rightarrow> Inl e | Inr st' \<Rightarrow> trap_loop rs lvl k st')"

fun spawn_inner :: "Room \<Rightarrow> int \<Rightarrow> nat \<Rightarrow> SpawnPoint list \<times> rng \<Rightarrow> SpawnPoint list \<times> rng" where
  \<comment> \<open>\<open>for _ in range(spawn_count)\<close>.\<close>
  "spawn_inner room lvl 0 st = st"
| "spawn_inner room lvl (Suc k) (sps, g) =
     (let (sp, g1) = create_spawn_point room lvl (room_type room = ''boss'') g
      in spawn_inner room lvl k (sps @ [sp], g1))"

fun spawn_loop :: "Room list \<Rightarrow> int \<Rightarrow> SpawnPoint list \<times> rng \<Rightarrow> SpawnPoint list \<times> rng" where
  \<comment> \<open>\<open>for room in rooms\<close>, skipping the spawn room.\<close>
  "spawn_loop [] lvl st = st"
| "spawn_loop (room # rs) lvl (sps, g) =
     (if room_type room \<noteq> ''spawn'' then
        (let (spawn_count, g1) =
               (if room_type room = ''boss'' then (1, g)
                else (let (k, g') = randint 0 2 g in (2 + k, g')))
         in spawn_loop rs lvl (spawn_inner room lvl (nat spawn_count) (sps, g1)))
      else spawn_loop rs lvl (sps, g))"

definition generate_dungeon ::
  "DungeonEngine \<Rightarrow> int \<Rightarrow> rng \<Rightarrow> error + (Dungeon \<times> DungeonEngine \<times> rng)" where
  "generate_dungeon engine lvl g =
     (let spawn_room = \<lparr>room_x = 0.0, room_z = 0.0, room_width = 15.0, room_height = 15.0,
                        room_type = ''spawn''\<rparr>;
          n = min (3 + lvl div 2) 8
      in case room_loop n [1..n - 1] ([spawn_room], [], g) of
           Inl e \<Rightarrow> Inl e
         | Inr (rs, cs0, g1) \<Rightarrow>
            (case (if length rs > 1 then
                     (case py_index rs (- 1) of
                        Inl e \<Rightarrow> Inl e
                      | Inr last_room \<Rightarrow>
                          Inr (cs0 @ [\<lparr>cor_start = \<lparr>pos_x = room_x last_room, pos_y = 0,
                                                       pos_z = room_z last_room\<rparr>,
                                        cor_end = \<lparr>pos_x = room_x spawn_room, pos_y = 0,
                                                    pos_z = room_z spawn_room\<rparr>,
                                        cor_width = 3.0\<rparr>]))
                   else Inr cs0) of
               Inl e \<Rightarrow> Inl e
             | Inr cs \<Rightarrow>
                (case trap_loop rs lvl (nat (py_int (real_of_int lvl * 1.5))) ([], engine, g1) of
                   Inl e \<Rightarrow> Inl e
                 | Inr (ts, engine', g2) \<Rightarrow>
                    (let (sps, g3) = spawn_loop rs lvl ([], g2);
                         ws = concat (map generate_room_walls rs)
                     in Inr (\<lparr>rooms = rs, corridors = cs, traps = ts, spawnPoints = sps,
                               walls = ws, level = lvl,
                               metadata = \<lparr>num_rooms = int (length rs),
                                            num_traps = int (length ts),
                                            num_spawn_points = int (length sps)\<rparr>\<rparr>,
                             engine', g3)))))"

section \<open>Validation (dungeon\_integration.py)\<close>

text \<open>
  The dictionary that \<open>validate_dungeon\<close> receives: each of the seven keys may be
  missing. A key that is present holds a value of the shape that \<open>generate_dungeon\<close>
  produces (a list of rooms, the three counts, ...); values of other shapes are outside
  the model.
\<close>

record DungeonDict =
  d_rooms :: "Room list option"
  d_corridors :: "Corridor list option"
  d_traps :: "Trap list option"
  d_spawnPoints :: "SpawnPoint list option"
  d_walls :: "Wall list option"
  d_level :: "int option"
  d_metadata :: "Metadata option"

definition as_dict :: "Dungeon \<Rightarrow> DungeonDict" where
  \<comment> \<open>The dictionary returned by \<open>generate_dungeon\<close>: all seven keys are present.\<close>
  "as_dict d = \<lparr>d_rooms = Some (rooms d), d_corridors = Some (corridors d),
                 d_traps = Some (traps d), d_spawnPoints = Some (spawnPoints d),
                 d_walls = Some (walls d), d_level = Some (level d),
                 d_metadata = Some (metadata d)\<rparr>"

definition validate_dungeon :: "DungeonDict \<Rightarrow> error + bool" where
  \<comment> \<open>The loop over the required keys is unrolled in its order.\<close>
  "validate_dungeon dd =
     (case d_rooms dd of None \<Rightarrow> Inl (ValueError ''Missing required key: rooms'') | Some rs \<Rightarrow>
      case d_corridors dd of None \<Rightarrow> Inl (ValueError ''Missing required key: corridors'') | Some cs \<Rightarrow>
      case d_traps dd of None \<Rightarrow> Inl (ValueError ''Missing required key: traps'') | Some ts \<Rightarrow>
      case d_spawnPoints dd of None \<Rightarrow> Inl (ValueError ''Missing required key: spawnPoints'') | Some sps \<Rightarrow>
      case d_walls dd of None \<Rightarrow> Inl (ValueError ''Missing required key: walls'') | Some ws \<Rightarrow>
      case d_level dd of None \<Rightarrow> Inl (ValueError ''Missing required key: level'') | Some l \<Rightarrow>
      case d_metadata dd of None \<Rightarrow> Inl (ValueError ''Missing required key: metadata'') | Some md \<Rightarrow>
        if length rs = 0 then Inl (ValueError ''Dungeon must have at least one room'')
        else
          (let spawn_rooms = filter (\<lambda>r. room_type r = ''spawn'') rs
           in if length spawn_rooms = 0 then Inl (ValueError ''Dungeon must have a spawn room'')
              else if num_rooms md \<noteq> int (length rs)
                then Inl (ValueError (''Metadata room count doesn'' @ [CHR 0x27] @ ''t match actual rooms''))
              else if num_traps md \<noteq> int (length ts)
                then Inl (ValueError (''Metadata trap count doesn'' @ [CHR 0x27] @ ''t match actual traps''))
              else if num_spawn_points md \<noteq> int (length sps)
                then Inl (ValueError (''Metadata spawn point count doesn'' @ [CHR 0x27]
                                       @ ''t match actual spawn points''))
              else Inr True))"

section \<open>Terms of the specification and concrete inputs\<close>

definition rarity_order :: "ItemRarity \<Rightarrow> nat" where
  \<comment> \<open>The rarity order of the specification: common < uncommon < rare < epic < legendary.\<close>
  "rarity_order r = (case r of COMMON \<Rightarrow> 0 | UNCOMMON \<Rightarrow> 1 | RARE \<Rightarrow> 2 | EPIC \<Rightarrow> 3 | LEGENDARY \<Rightarrow> 4)"


definition room_type_ok :: "int \<Rightarrow> int \<Rightarrow> string \<Rightarrow> bool" where
  \<comment> \<open>The type that the room of index \<open>i\<close> out of \<open>n\<close> may have.\<close>
  "room_type_ok n i t = (if i = n - 1 then t = ''boss'' else t \<in> set [''treasure'', ''normal''])"

definition origin_room :: Room where
  \<comment> \<open>The spawn room that every dungeon starts with.\<close>
  "origin_room = \<lparr>room_x = 0, room_z = 0, room_width = 15, room_height = 15, room_type = ''spawn''\<rparr>"



definition new_engine :: DungeonEngine where
  "new_engine = \<lparr>trap_id_counter = 0, spawn_point_id_counter = 0\<rparr>"

definition minor_health_potion :: "ItemRarity \<Rightarrow> int \<Rightarrow> LootItem" where
  "minor_health_potion r v =
     \<lparr>item_id = ''item_1000'', item_name = ''Minor Health Potion'', item_type = POTION,
      item_rarity = r, item_stats = [], item_value = v,
      item_effect = Some ''Restores health over time''\<rparr>"

subsection \<open>A concrete pairing that outlasts the round bound\<close>




subsection \<open>A level 20 player against a level 1 zombie\<close>


definition weak_zombie :: Enemy where
  "weak_zombie = \<lparr>e_id = ''enemy_1000'', e_type = ''zombie'', e_level = 1, e_health = 50,
     e_max_health = 50, e_damage = 10,
     e_stats = \<lparr>strength = 10, dexterity = 7, intelligence = 6, vitality = 12\<rparr>,
     e_experience = 20, e_gold_reward = 5\<rparr>"

section \<open>Properties\<close>



subsection \<open>The combat loop\<close>

lemma round_num_combat_round: "round_num (combat_round s) = round_num s + 1"
  by (simp add: combat_round_def Let_def split: prod.splits)

lemma combat_loop_continue:
  "player_health s > 0 \<Longrightarrow> enemy_health s > 0 \<Longrightarrow> round_num s < 100 \<Longrightarrow>
   combat_loop s = combat_loop (combat_round s)"
  by (subst combat_loop.simps) simp

lemma combat_loop_exit:
  "\<not> (player_health s > 0 \<and> enemy_health s > 0 \<and> round_num s < 100) \<Longrightarrow> combat_loop s = s"
  by (subst combat_loop.simps) auto

lemma combat_loop_round_bound: "round_num s \<le> 100 \<Longrightarrow> round_num (combat_loop s) \<le> 100"
proof (induction s rule: combat_loop.induct)
  case (1 s)
  show ?case
  proof (cases "player_health s > 0 \<and> enemy_health s > 0 \<and> round_num s < 100")
    case True
    then have "round_num (combat_round s) \<le> 100"
      by (simp add: round_num_combat_round)
    with 1(1) True show ?thesis
      by (simp add: combat_loop_continue)
  next
    case False
    then have "combat_loop s = s"
      by (rule combat_loop_exit)
    with 1(2) show ?thesis
      by simp
  qed
qed

lemma length_rounds_combat_round:
  "length (rounds (combat_round s)) = Suc (length (rounds s))"
  by (simp add: combat_round_def Let_def split: prod.splits)

lemma combat_loop_log_length:
  "int (length (rounds s)) = round_num s \<Longrightarrow>
   int (length (rounds (combat_loop s))) = round_num (combat_loop s)"
proof (induction s rule: combat_loop.induct)
  case (1 s)
  show ?case
  proof (cases "player_health s > 0 \<and> enemy_health s > 0 \<and> round_num s < 100")
    case True
    have "int (length (rounds (combat_round s))) = round_num (combat_round s)"
      using 1(2) by (simp add: round_num_combat_round length_rounds_combat_round)
    with 1(1) True show ?thesis
      by (simp add: combat_loop_continue)
  next
    case False
    then have "combat_loop s = s"
      by (rule combat_loop_exit)
    with 1(2) show ?thesis
      by simp
  qed
qed

text \<open>
  C3. \<open>simulate_combat\<close> always returns (the loop is a total function, its measure is
  the number of rounds left up to 100); the number of rounds it reports is at most 100
  and is the length of the combat log; and it reports victory exactly when the running
  player health at loop exit is positive, which is also when the reported final player
  health is positive.
\<close>

theorem simulate_combat_bounded:
  "cr_rounds (fst (simulate_combat p e g)) \<le> 100
   \<and> 0 \<le> cr_rounds (fst (simulate_combat p e g))
   \<and> int (length (combatLog (fst (simulate_combat p e g)))) = cr_rounds (fst (simulate_combat p e g))
   \<and> victory (fst (simulate_combat p e g)) = (0 < player_health (run_combat p e g))
   \<and> victory (fst (simulate_combat p e g)) = (0 < finalPlayerHealth (fst (simulate_combat p e g)))"
proof -
  let ?s0 = "\<lparr>cs_player = p, cs_enemy = e, player_health = p_health p,
              enemy_health = e_health e, round_num = 0, rounds = [], cs_rng = g\<rparr>"
  have a: "round_num (combat_loop ?s0) \<le> 100"
    by (rule combat_loop_round_bound) simp
  have b: "int (length (rounds (combat_loop ?s0))) = round_num (combat_loop ?s0)"
    by (rule combat_loop_log_length) simp
  from b have c: "0 \<le> round_num (combat_loop ?s0)"
    by (metis of_nat_0_le_iff)
  have d: "(0 < x) = (0 < max 0 x)" for x :: int
    by auto
  show ?thesis
    using a b c d by (simp add: simulate_combat_def run_combat_def Let_def)
qed

subsection \<open>What the call leaves of its arguments\<close>

lemma combat_round_frame:
  "cs_player (combat_round s) = cs_player s \<and> cs_enemy (combat_round s) = cs_enemy s"
  by (simp add: combat_round_def Let_def split: prod.splits)

lemma combat_loop_frame:
  "cs_player (combat_loop s) = cs_player s \<and> cs_enemy (combat_loop s) = cs_enemy s"
proof (induction s rule: combat_loop.induct)
  case (1 s)
  show ?case
  proof (cases "player_health s > 0 \<and> enemy_health s > 0 \<and> round_num s < 100")
    case True
    with 1 show ?thesis
      by (simp add: combat_loop_continue combat_round_frame)
  next
    case False
    then have "combat_loop s = s"
      by (rule combat_loop_exit)
    then show ?thesis
      by simp
  qed
qed

text \<open>
  C10. \<open>simulate_combat\<close> leaves both argument objects as they were: every round of the
  loop keeps the player and the enemy object of the state unchanged and only updates the
  local running totals, so after the call every field of both has its value from before.
\<close>

theorem simulate_combat_frame:
  "fst (snd (simulate_combat p e g)) = p \<and> fst (snd (snd (simulate_combat p e g))) = e"
  by (simp add: simulate_combat_def run_combat_def Let_def combat_loop_frame)

subsection \<open>Reaching the round bound\<close>

lemma rng_tail_const: "rng_tail (const_rng k) = const_rng k"
  by (simp add: rng_tail_def const_rng_def)


lemma randint_const: "randint a b (const_rng k) = (a + int (k mod nat (b - a + 1)), const_rng k)"
  by (simp add: randint_def rng_tail_const) (simp add: const_rng_def)








subsection \<open>Loot\<close>

lemma choice_const: "choice xs (const_rng k) = (xs ! (k mod length xs), const_rng k)"
  by (simp add: choice_def rng_tail_const) (simp add: const_rng_def)


lemma str_int_1000: "str_int 1000 = ''1000''"
  by (simp add: str_int_def str_nat.simps digit_char_def)


lemma sell_value_mono:
  "rarity_order r1 < rarity_order r2 \<Longrightarrow>
   sell_value (RARITY_VALUES r1) < sell_value (RARITY_VALUES r2)"
  by (cases r1; cases r2) (simp_all add: rarity_order_def RARITY_VALUES_def)

lemma generate_item_fields:
  assumes "generate_item r it lvl g = Inr (item, g')"
  shows "item_value item = calculate_value (item_type item) r (item_stats item)"
    and "item_type item = fst (case it of None \<Rightarrow> random_item_type g | Some t \<Rightarrow> (t, g))"
    and "item_type item \<in> {POTION, SCROLL} \<Longrightarrow> item_stats item = []"
  using assms
  by (auto simp: generate_item_def Let_def generate_stats_def
      split: prod.splits sum.splits if_splits)





lemma potion_at_zero:
  "generate_item r (Some POTION) 1 (const_rng 0) =
     Inr (minor_health_potion r (sell_value (RARITY_VALUES r)), const_rng 0)"
  by (simp add: generate_item_def Let_def generate_item_name_def choice_const
      ITEM_PREFIXES_def ITEM_TYPES_NAMES_def generate_stats_def calculate_value_def
      randint_const str_int_1000 generate_effect_def minor_health_potion_def)

text \<open>
  C7. Every item that \<open>generate_item\<close> returns has the value
  \<open>sell_value + 2 * sum(stat values)\<close> of its rarity, the sell values being 10, 25, 50,
  100 and 250 from common to legendary. An item of a type without stats (potion, scroll)
  is worth the sell value alone, so with all other inputs fixed (requested type, level
  and random stream) its value grows strictly along the rarity order.
\<close>

theorem generate_item_value:
  assumes "generate_item r1 it lvl g = Inr (i1, g1)"
    and "generate_item r2 it lvl g = Inr (i2, g2)"
  shows "item_value i1 = sell_value (RARITY_VALUES r1) + 2 * sum_list (map snd (item_stats i1))
    \<and> map (\<lambda>r. sell_value (RARITY_VALUES r)) [COMMON, UNCOMMON, RARE, EPIC, LEGENDARY]
        = [10, 25, 50, 100, 250]
    \<and> (item_type i1 \<in> {POTION, SCROLL} \<longrightarrow> item_value i1 = sell_value (RARITY_VALUES r1))
    \<and> (item_type i1 \<in> {POTION, SCROLL} \<and> rarity_order r1 < rarity_order r2
          \<longrightarrow> item_value i1 < item_value i2)"
proof -
  have v1: "item_value i1 = sell_value (RARITY_VALUES r1) + 2 * sum_list (map snd (item_stats i1))"
    using generate_item_fields(1) [OF assms(1)] by (simp add: calculate_value_def)
  have v2: "item_value i2 = sell_value (RARITY_VALUES r2) + 2 * sum_list (map snd (item_stats i2))"
    using generate_item_fields(1) [OF assms(2)] by (simp add: calculate_value_def)
  have ty: "item_type i2 = item_type i1"
    using generate_item_fields(2) [OF assms(1)] generate_item_fields(2) [OF assms(2)] by simp
  have tab: "map (\<lambda>r. sell_value (RARITY_VALUES r)) [COMMON, UNCOMMON, RARE, EPIC, LEGENDARY]
        = [10, 25, 50, 100, 250]"
    by (simp add: RARITY_VALUES_def)
  have free: "item_value i1 = sell_value (RARITY_VALUES r1)" if "item_type i1 \<in> {POTION, SCROLL}"
    using v1 generate_item_fields(3) [OF assms(1) that] by simp
  have free2: "item_value i2 = sell_value (RARITY_VALUES r2)" if "item_type i1 \<in> {POTION, SCROLL}"
    using v2 generate_item_fields(3) [OF assms(2)] that ty by simp
  show ?thesis
    using v1 tab free free2 sell_value_mono [of r1 r2] by auto
qed

theorem generate_item_value_witness:
  "generate_item COMMON (Some POTION) 1 (const_rng 0) = Inr (minor_health_potion COMMON 10, const_rng 0)
   \<and> generate_item RARE (Some POTION) 1 (const_rng 0) = Inr (minor_health_potion RARE 50, const_rng 0)
   \<and> item_type (minor_health_potion COMMON 10) \<in> {POTION, SCROLL}
   \<and> rarity_order COMMON < rarity_order RARE
   \<and> item_value (minor_health_potion COMMON 10) = sell_value (RARITY_VALUES COMMON)
   \<and> item_value (minor_health_potion COMMON 10) < item_value (minor_health_potion RARE 50)"
proof -
  have a: "generate_item COMMON (Some POTION) 1 (const_rng 0)
      = Inr (minor_health_potion COMMON 10, const_rng 0)"
    using potion_at_zero [of COMMON] by (simp add: RARITY_VALUES_def)
  have b: "generate_item RARE (Some POTION) 1 (const_rng 0)
      = Inr (minor_health_potion RARE 50, const_rng 0)"
    using potion_at_zero [of RARE] by (simp add: RARITY_VALUES_def)
  have t: "item_type (minor_health_potion COMMON 10) \<in> {POTION, SCROLL}"
    by (simp add: minor_health_potion_def)
  have o: "rarity_order COMMON < rarity_order RARE"
    by (simp add: rarity_order_def)
  from generate_item_value [OF a b] t o
  have "item_value (minor_health_potion COMMON 10) = sell_value (RARITY_VALUES COMMON)
    \<and> item_value (minor_health_potion COMMON 10) < item_value (minor_health_potion RARE 50)"
    by blast
  with a b t o show ?thesis
    by blast
qed

subsection \<open>The dungeon run\<close>

lemma create_enemy_known:
  "map_of ENEMY_TYPES t \<noteq> None \<Longrightarrow> e_type (fst (create_enemy t lvl g)) = t"
  by (auto simp: create_enemy_def Let_def split: prod.splits)









lemma list_all2_last:
  "list_all2 P xs ys \<Longrightarrow> xs \<noteq> [] \<Longrightarrow> P (last xs) (last ys)"
  by (induction rule: list_all2_induct) (auto simp: list_all2_Nil)



lemma create_weak_zombie: "create_enemy ''zombie'' 1 (const_rng 0) = (weak_zombie, const_rng 0)"
  by (simp add: create_enemy_def ENEMY_TYPES_def zombie_template_def Let_def randint_const
      str_int_1000 py_int_def weak_zombie_def)












subsection \<open>Strings that name no enum member\<close>

lemma create_enemy_unknown:
  "map_of ENEMY_TYPES t = None \<Longrightarrow> create_enemy t lvl g = create_enemy ''zombie'' lvl g"
  by (simp add: create_enemy_def ENEMY_TYPES_def)

text \<open>
  C8, as stated, fails for enemy types. \<open>'dragon'\<close> is no key of the enemy table, and
  \<open>create_enemy('dragon', 1)\<close> returns a level 1 zombie instead of failing.
\<close>

theorem unknown_enemy_counterexample:
  "map_of ENEMY_TYPES ''dragon'' = None
   \<and> create_enemy ''dragon'' 1 (const_rng 0) = (weak_zombie, const_rng 0)
   \<and> e_type (fst (create_enemy ''dragon'' 1 (const_rng 0))) = ''zombie''"
proof -
  have u: "map_of ENEMY_TYPES ''dragon'' = None"
    by (simp add: ENEMY_TYPES_def)
  have "create_enemy ''dragon'' 1 (const_rng 0) = (weak_zombie, const_rng 0)"
    using create_enemy_unknown [OF u] by (simp add: create_weak_zombie)
  with u show ?thesis
    by (simp add: weak_zombie_def)
qed

text \<open>
  C8, amended. A rarity string that names no rarity makes \<open>generate_loot_json\<close> fail
  with a ValueError whose message contains the string; so does, with a valid rarity, a
  non-empty item-type string that names no item type (names are compared after
  \<open>upper()\<close>; an empty item type counts as none given). An enemy-type string that is
  no key of the enemy table raises nothing: \<open>create_enemy\<close>, and through it
  \<open>simulate_combat_json\<close>, treats it as \<open>'zombie'\<close> and returns a zombie.
\<close>

theorem unknown_enum_strings:
  "(ItemRarity_by_name (upper rarity) = None \<longrightarrow>
      generate_loot_json count rarity it lvl g =
        Inl (ValueError (''Invalid rarity: '' @ rarity @
               ''. Must be one of: common, uncommon, rare, epic, legendary'')))
   \<and> (ItemRarity_by_name (upper rarity') \<noteq> None \<and> s \<noteq> [] \<and> ItemType_by_name (upper s) = None \<longrightarrow>
      generate_loot_json count rarity' (Some s) lvl g =
        Inl (ValueError (''Invalid item type: '' @ s @
               ''. Must be one of: weapon, armor, potion, scroll'')))
   \<and> (map_of ENEMY_TYPES t = None \<longrightarrow>
        create_enemy t lvl g = create_enemy ''zombie'' lvl g
        \<and> e_type (fst (create_enemy t lvl g)) = ''zombie''
        \<and> simulate_combat_json pl lvl t g = simulate_combat_json pl lvl ''zombie'' g)"
proof -
  have z: "e_type (fst (create_enemy ''zombie'' lvl g)) = ''zombie''"
    by (rule create_enemy_known) (simp add: ENEMY_TYPES_def)
  show ?thesis
    using z by (auto simp: generate_loot_json_def create_enemy_unknown simulate_combat_json_def)
qed

theorem unknown_enum_strings_witness:
  "ItemRarity_by_name (upper ''mythic'') = None
   \<and> generate_loot_json 1 ''mythic'' None 1 (const_rng 0) =
        Inl (ValueError ''Invalid rarity: mythic. Must be one of: common, uncommon, rare, epic, legendary'')
   \<and> ItemRarity_by_name (upper ''common'') \<noteq> None
   \<and> ItemType_by_name (upper ''gem'') = None
   \<and> generate_loot_json 1 ''common'' (Some ''gem'') 1 (const_rng 0) =
        Inl (ValueError ''Invalid item type: gem. Must be one of: weapon, armor, potion, scroll'')
   \<and> map_of ENEMY_TYPES ''dragon'' = None
   \<and> e_type (fst (create_enemy ''dragon'' 1 (const_rng 0))) = ''zombie''
   \<and> simulate_combat_json 1 1 ''dragon'' (const_rng 0) = simulate_combat_json 1 1 ''zombie'' (const_rng 0)"
proof -
  have a: "ItemRarity_by_name (upper ''mythic'') = None"
    by (simp add: upper_def upper_char_def ItemRarity_by_name_def)
  have b: "ItemRarity_by_name (upper ''common'') \<noteq> None"
    by (simp add: upper_def upper_char_def ItemRarity_by_name_def)
  have c: "ItemType_by_name (upper ''gem'') = None"
    by (simp add: upper_def upper_char_def ItemType_by_name_def)
  have d: "map_of ENEMY_TYPES ''dragon'' = None"
    by (simp add: ENEMY_TYPES_def)
  have e: "''gem'' \<noteq> []"
    by simp
  note th = unknown_enum_strings [of "''mythic''" 1 None 1 "const_rng 0" "''common''" "''gem''"
      "''dragon''" 1]
  from th a have r1: "generate_loot_json 1 ''mythic'' None 1 (const_rng 0) =
        Inl (ValueError (''Invalid rarity: '' @ ''mythic'' @
               ''. Must be one of: common, uncommon, rare, epic, legendary''))"
    by blast
  from th b c e have r2: "generate_loot_json 1 ''common'' (Some ''gem'') 1 (const_rng 0) =
        Inl (ValueError (''Invalid item type: '' @ ''gem'' @
               ''. Must be one of: weapon, armor, potion, scroll''))"
    by blast
  from th d have r3: "e_type (fst (create_enemy ''dragon'' 1 (const_rng 0))) = ''zombie''"
    "simulate_combat_json 1 1 ''dragon'' (const_rng 0) = simulate_combat_json 1 1 ''zombie'' (const_rng 0)"
    by blast+
  from a b c d r1 r2 r3 show ?thesis
    by simp
qed

subsection \<open>Dungeon generation and validation\<close>

lemma determine_room_type_ok: "room_type_ok n i (fst (determine_room_type i n g))"
  by (simp add: determine_room_type_def room_type_ok_def Let_def split: prod.splits)

lemma room_step_returns:
  assumes "int (length rs) = i" "1 \<le> i" "i < n"
  shows "\<exists>room cs' g'. room_step n i (rs, cs, g) = Inr (rs @ [room], cs', g')
     \<and> room_type_ok n i (room_type room)"
proof -
  obtain r1 g1 where a: "random_random g = (r1, g1)" by (cases "random_random g")
  obtain rt g2 where b: "determine_room_type i n g1 = (rt, g2)"
    by (cases "determine_room_type i n g1")
  obtain rw g3 where c: "random_random g2 = (rw, g3)" by (cases "random_random g2")
  obtain rh g4 where d: "random_random g3 = (rh, g4)" by (cases "random_random g3")
  have ok: "room_type_ok n i rt"
    using determine_room_type_ok [of n i g1] b by simp
  have idx: "py_index (rs @ [room]) (i - 1) = Inr ((rs @ [room]) ! nat (i - 1))" for room :: Room
    using assms by (auto simp: py_index_def Let_def)
  show ?thesis
    using assms ok
    by (simp add: room_step_def a b c d idx Let_def)
qed

lemma room_loop_returns:
  assumes "int (length rs) = i" "1 \<le> i" "m < n"
  shows "\<exists>new cs' g'. room_loop n [i..m] (rs, cs, g) = Inr (rs @ new, cs', g')
     \<and> list_all2 (\<lambda>j r. room_type_ok n j (room_type r)) [i..m] new"
  using assms
proof (induction i m arbitrary: rs cs g rule: upto.induct)
  case (1 i m)
  show ?case
  proof (cases "i \<le> m")
    case False
    then show ?thesis
      by (simp add: upto.simps)
  next
    case True
    then have up: "[i..m] = i # [i + 1..m]"
      by (simp add: upto.simps)
    from True 1(4) have "i < n"
      by simp
    from room_step_returns [OF 1(2) 1(3) this, of cs g] obtain room cs1 g1 where
      st: "room_step n i (rs, cs, g) = Inr (rs @ [room], cs1, g1)"
      and ok: "room_type_ok n i (room_type room)"
      by blast
    have "\<exists>new cs' g'. room_loop n [i + 1..m] (rs @ [room], cs1, g1) = Inr ((rs @ [room]) @ new, cs', g')
       \<and> list_all2 (\<lambda>j r. room_type_ok n j (room_type r)) [i + 1..m] new"
      using True 1(2,3,4) by (intro 1(1)) simp_all
    then obtain new cs' g' where
      run: "room_loop n [i + 1..m] (rs @ [room], cs1, g1) = Inr ((rs @ [room]) @ new, cs', g')"
      and all: "list_all2 (\<lambda>j r. room_type_ok n j (room_type r)) [i + 1..m] new"
      by blast
    have "room_loop n [i..m] (rs, cs, g) = Inr (rs @ (room # new), cs', g')"
      using st run by (simp add: up)
    moreover have "list_all2 (\<lambda>j r. room_type_ok n j (room_type r)) [i..m] (room # new)"
      using ok all by (simp add: up)
    ultimately show ?thesis
      by blast
  qed
qed

lemma trap_step_returns:
  "rs \<noteq> [] \<Longrightarrow> \<exists>t e' g'. trap_step rs lvl (ts, e, g) = Inr (ts @ [t], e', g')"
  by (simp add: trap_step_def py_choice_def split: prod.splits)

lemma trap_loop_returns:
  "rs \<noteq> [] \<Longrightarrow> \<exists>ts' e' g'. trap_loop rs lvl k (ts, e, g) = Inr (ts', e', g')
     \<and> length ts' = length ts + k"
proof (induction k arbitrary: ts e g)
  case 0
  show ?case by simp
next
  case (Suc k)
  from trap_step_returns [OF Suc.prems, of lvl ts e g] obtain t e1 g1 where
    st: "trap_step rs lvl (ts, e, g) = Inr (ts @ [t], e1, g1)"
    by blast
  from Suc.IH [OF Suc.prems, of "ts @ [t]" e1 g1] st show ?case
    by auto
qed

lemma length_walls: "length (concat (map generate_room_walls rs)) = 4 * length rs"
  by (induction rs) (simp_all add: generate_room_walls_def)

lemma count_boss:
  "list_all2 (\<lambda>j r. room_type_ok n j (room_type r)) js new \<Longrightarrow>
   length (filter (\<lambda>r. room_type r = ''boss'') new) = length (filter (\<lambda>j. j = n - 1) js)
   \<and> filter (\<lambda>r. room_type r = ''spawn'') new = []"
  by (induction rule: list_all2_induct) (auto simp: room_type_ok_def split: if_splits)

lemma one_last_index: "2 \<le> n \<Longrightarrow> length (filter (\<lambda>j. j = n - 1) [1..n - 1]) = (1::nat)"
proof -
  assume n: "2 \<le> (n::int)"
  then have "[1..n - 1] = [1..n - 1 - 1] @ [n - 1]"
    by (intro upto_rec2) simp
  moreover have "filter (\<lambda>j. j = n - 1) [1..n - 1 - 1] = []"
    by (auto simp: filter_empty_conv)
  ultimately show ?thesis
    by simp
qed


lemma py_index_last: "rs \<noteq> [] \<Longrightarrow> py_index rs (- 1) = Inr (last rs)"
  by (cases rs rule: rev_cases) (simp_all add: py_index_def Let_def)

lemma generate_dungeon_shape:
  "\<exists>d e' g' new. generate_dungeon e lvl g = Inr (d, e', g')
     \<and> rooms d = origin_room # new
     \<and> list_all2 (\<lambda>j r. room_type_ok (min (3 + lvl div 2) 8) j (room_type r))
          [1..min (3 + lvl div 2) 8 - 1] new
     \<and> length (traps d) = nat (py_int (real_of_int lvl * 1.5))
     \<and> length (walls d) = 4 * length (rooms d)
     \<and> level d = lvl
     \<and> metadata d = \<lparr>num_rooms = int (length (rooms d)), num_traps = int (length (traps d)),
                       num_spawn_points = int (length (spawnPoints d))\<rparr>"
proof -
  let ?n = "min (3 + lvl div 2) 8"
  have lt: "?n - 1 < ?n"
    by arith
  have "\<exists>new cs' g'. room_loop ?n [1..?n - 1] ([origin_room], [], g) = Inr ([origin_room] @ new, cs', g')
     \<and> list_all2 (\<lambda>j r. room_type_ok ?n j (room_type r)) [1..?n - 1] new"
    by (rule room_loop_returns [OF _ _ lt]) simp_all
  then obtain new cs0 g1 where
    rl0: "room_loop ?n [1..?n - 1] ([origin_room], [], g) = Inr (origin_room # new, cs0, g1)"
    and all: "list_all2 (\<lambda>j r. room_type_ok ?n j (room_type r)) [1..?n - 1] new"
    by auto
  define rs where "rs = origin_room # new"
  have ne: "rs \<noteq> []"
    by (simp add: rs_def)
  have rl: "room_loop ?n [1..?n - 1] ([origin_room], [], g) = Inr (rs, cs0, g1)"
    using rl0 by (simp add: rs_def)
  have ix: "py_index rs (- 1) = Inr (last rs)"
    using ne by (rule py_index_last)
  let ?k = "nat (py_int (real_of_int lvl * 1.5))"
  from trap_loop_returns [OF ne, of lvl ?k "[]" e g1] obtain ts e' g2 where
    tl: "trap_loop rs lvl ?k ([], e, g1) = Inr (ts, e', g2)" and lt: "length ts = ?k"
    by auto
  obtain sps g3 where sl: "spawn_loop rs lvl ([], g2) = (sps, g3)"
    by (cases "spawn_loop rs lvl ([], g2)")
  have "\<exists>d. generate_dungeon e lvl g = Inr (d, e', g3)
     \<and> rooms d = rs \<and> traps d = ts \<and> walls d = concat (map generate_room_walls rs)
     \<and> level d = lvl
     \<and> metadata d = \<lparr>num_rooms = int (length (rooms d)), num_traps = int (length (traps d)),
                       num_spawn_points = int (length (spawnPoints d))\<rparr>"
    using tl sl by (simp add: generate_dungeon_def origin_room_def [symmetric] rl ix Let_def)
  then show ?thesis
    using all lt length_walls [of rs] by (auto simp: rs_def)
qed

text \<open>
  C1. For every level of at least 1, \<open>generate_dungeon\<close> returns a dungeon with exactly
  \<open>min(3 + level // 2, 8)\<close> rooms; exactly one of them has type spawn, and it is the
  first one, at the origin; exactly one has type boss, and it is the last one; there are
  exactly \<open>floor(level * 1.5)\<close> traps and four walls for every room.
\<close>

theorem generate_dungeon_counts:
  assumes "1 \<le> lvl"
  shows "\<exists>d e' g'. generate_dungeon e lvl g = Inr (d, e', g')
     \<and> int (length (rooms d)) = min (3 + lvl div 2) 8
     \<and> length (filter (\<lambda>r. room_type r = ''spawn'') (rooms d)) = 1
     \<and> hd (rooms d) = origin_room
     \<and> length (filter (\<lambda>r. room_type r = ''boss'') (rooms d)) = 1
     \<and> room_type (last (rooms d)) = ''boss''
     \<and> int (length (traps d)) = \<lfloor>real_of_int lvl * 1.5\<rfloor>
     \<and> length (walls d) = 4 * length (rooms d)"
proof -
  let ?n = "min (3 + lvl div 2) 8"
  from assms have n: "3 \<le> ?n"
    by simp
  from generate_dungeon_shape [of e lvl g] obtain d e' g' new where
    gd: "generate_dungeon e lvl g = Inr (d, e', g')"
    and rs: "rooms d = origin_room # new"
    and all: "list_all2 (\<lambda>j r. room_type_ok ?n j (room_type r)) [1..?n - 1] new"
    and tr: "length (traps d) = nat (py_int (real_of_int lvl * 1.5))"
    and ws: "length (walls d) = 4 * length (rooms d)"
    by blast
  from list_all2_lengthD [OF all] n have ln: "int (length new) = ?n - 1"
    by simp
  then have len: "int (length (rooms d)) = ?n"
    using rs by simp
  from count_boss [OF all] have cb: "length (filter (\<lambda>r. room_type r = ''boss'') new)
      = length (filter (\<lambda>j. j = ?n - 1) [1..?n - 1])"
    and cs: "filter (\<lambda>r. room_type r = ''spawn'') new = []"
    by simp_all
  from n have "length (filter (\<lambda>j. j = ?n - 1) [1..?n - 1]) = 1"
    by (intro one_last_index) simp
  with cb have boss1: "length (filter (\<lambda>r. room_type r = ''boss'') (rooms d)) = 1"
    using rs by (simp add: origin_room_def)
  have spawn1: "length (filter (\<lambda>r. room_type r = ''spawn'') (rooms d)) = 1"
    using rs cs by (simp add: origin_room_def)
  from n have ne: "[1..?n - 1] \<noteq> []"
    by (simp add: upto.simps)
  with all have nn: "new \<noteq> []"
    by auto
  from n have "last [1..?n - 1] = ?n - 1"
    by (simp add: upto_rec2)
  with list_all2_last [OF all ne] have "room_type (last new) = ''boss''"
    by (simp add: room_type_ok_def)
  with nn rs have lastb: "room_type (last (rooms d)) = ''boss''"
    by simp
  from assms have "0 \<le> real_of_int lvl * 1.5"
    by simp
  then have "py_int (real_of_int lvl * 1.5) = \<lfloor>real_of_int lvl * 1.5\<rfloor>"
    "0 \<le> \<lfloor>real_of_int lvl * 1.5\<rfloor>"
    by (simp_all add: py_int_def)
  with tr have trf: "int (length (traps d)) = \<lfloor>real_of_int lvl * 1.5\<rfloor>"
    by simp
  from gd len spawn1 boss1 lastb trf ws rs show ?thesis
    by auto
qed

theorem generate_dungeon_counts_witness:
  "(1::int) \<le> 5 \<and> (\<exists>d e' g'. generate_dungeon new_engine 5 (const_rng 0) = Inr (d, e', g')
     \<and> length (rooms d) = 5
     \<and> length (filter (\<lambda>r. room_type r = ''spawn'') (rooms d)) = 1
     \<and> hd (rooms d) = origin_room
     \<and> length (filter (\<lambda>r. room_type r = ''boss'') (rooms d)) = 1
     \<and> room_type (last (rooms d)) = ''boss''
     \<and> length (traps d) = 7
     \<and> length (walls d) = 20)"
proof -
  have h: "(1::int) \<le> 5"
    by simp
  from generate_dungeon_counts [OF h, of new_engine "const_rng 0"] obtain d e' g' where
    gd: "generate_dungeon new_engine 5 (const_rng 0) = Inr (d, e', g')"
    and a: "int (length (rooms d)) = min (3 + 5 div 2) 8"
    and b: "length (filter (\<lambda>r. room_type r = ''spawn'') (rooms d)) = 1"
    and c: "hd (rooms d) = origin_room"
    and b': "length (filter (\<lambda>r. room_type r = ''boss'') (rooms d)) = 1"
    and l: "room_type (last (rooms d)) = ''boss''"
    and t: "int (length (traps d)) = \<lfloor>real_of_int 5 * 1.5\<rfloor>"
    and w: "length (walls d) = 4 * length (rooms d)"
    by blast
  from a have a': "length (rooms d) = 5"
    by simp
  from t have t': "length (traps d) = 7"
    by simp
  from w a' have w': "length (walls d) = 20"
    by simp
  from gd a' b c b' l t' w' h show ?thesis
    by blast
qed

text \<open>
  C5. \<open>generate_dungeon\<close> returns for every level, and in the dungeon it returns
  \<open>num_rooms\<close>, \<open>num_traps\<close> and \<open>num_spawn_points\<close> are the lengths of the
  lists of rooms, traps and spawn points: they are computed from the final lists. The
  dungeon passes \<open>validate_dungeon\<close>.
\<close>

theorem generate_dungeon_metadata:
  "\<exists>d e' g'. generate_dungeon e lvl g = Inr (d, e', g')
     \<and> num_rooms (metadata d) = int (length (rooms d))
     \<and> num_traps (metadata d) = int (length (traps d))
     \<and> num_spawn_points (metadata d) = int (length (spawnPoints d))
     \<and> validate_dungeon (as_dict d) = Inr True"
proof -
  from generate_dungeon_shape [of e lvl g] obtain d e' g' new where
    gd: "generate_dungeon e lvl g = Inr (d, e', g')"
    and rs: "rooms d = origin_room # new"
    and md: "metadata d = \<lparr>num_rooms = int (length (rooms d)), num_traps = int (length (traps d)),
                       num_spawn_points = int (length (spawnPoints d))\<rparr>"
    by blast
  have m: "num_rooms (metadata d) = int (length (rooms d))"
    "num_traps (metadata d) = int (length (traps d))"
    "num_spawn_points (metadata d) = int (length (spawnPoints d))"
    by (subst md, simp)+
  have "validate_dungeon (as_dict d) = Inr True"
    using m by (simp add: validate_dungeon_def as_dict_def rs origin_room_def)
  with gd m show ?thesis
    by blast
qed





end
